theory Spec2Isabelle
  imports Complex_Main "HOL-Library.Code_Target_Numeral"
begin

section \<open>Little Lemon API: the serializers\<close>

text \<open>
  A shallow embedding of \<^verbatim>\<open>LittleLemonAPI/serializers.py\<close>. The serializers are
  Django REST framework model serializers; what the framework does with the declarations
  of the file (which fields are read, which are written, how a field validates, how a
  validator queries a table) is written out as functions here, and the tables of the
  database are lists of rows passed in and returned.
\<close>

subsection \<open>Python's \<^verbatim>\<open>Decimal\<close>\<close>

text \<open>
  A finite \<^verbatim>\<open>Decimal\<close> is a signed coefficient and an exponent: the number
  \<open>coeff * 10 ^ exponent\<close>. \<^verbatim>\<open>Decimal('0.10')\<close> is coefficient 10, exponent -2.
  NaN, the infinities and the sign of a zero are not modelled, nor are the bounds
  \<^verbatim>\<open>Emin\<close> and \<^verbatim>\<open>Emax\<close> of the exponent.
  Arithmetic runs in the default context: 28 significant digits, \<^verbatim>\<open>ROUND_HALF_EVEN\<close>.
  Nothing in the file, in Django or in the REST framework changes that context.
\<close>

record decimal =
  coeff :: int
  exponent :: int

text \<open>
  What the code raises. A field or a validator raises \<^verbatim>\<open>ValidationError\<close> with a
  list of messages; a serializer collects them by field name and raises the dictionary.
\<close>

datatype error =
  InvalidOperation
  | MultipleObjectsReturned
  | ValidationError "string list"
  | ValidationErrors "(string \<times> string list) list"

definition prec :: nat where
  "prec = 28"

text \<open>Division by a positive integer, rounded to the nearest integer, a tie to the even one.\<close>

definition round_half_even_div :: "int \<Rightarrow> int \<Rightarrow> int" where
  "round_half_even_div n d =
     (let q = n div d; r = n mod d in
      if 2 * r < d then q
      else if d < 2 * r then q + 1
      else if even q then q else q + 1)"

text \<open>How many digits a coefficient has beyond the context's precision.\<close>

function excess_digits :: "nat \<Rightarrow> nat" where
  "excess_digits n = (if n < 10 ^ prec then 0 else Suc (excess_digits (n div 10)))"
  by pat_completeness auto
termination
  by (relation "measure id") (auto simp: prec_def)

text \<open>
  \<^verbatim>\<open>Decimal._fix\<close>: the result of an operation is rounded to the context's precision.
\<close>

definition dec_fix :: "decimal \<Rightarrow> decimal" where
  "dec_fix d =
     (let k = excess_digits (nat \<bar>coeff d\<bar>) in
      if k = 0 then d
      else
        (let c = round_half_even_div (coeff d) (10 ^ k) in
         if 10 ^ prec \<le> \<bar>c\<bar>
         then \<lparr>coeff = c div 10, exponent = exponent d + int k + 1\<rparr>
         else \<lparr>coeff = c, exponent = exponent d + int k\<rparr>))"

definition dec_mul :: "decimal \<Rightarrow> decimal \<Rightarrow> decimal" where
  "dec_mul a b = dec_fix \<lparr>coeff = coeff a * coeff b, exponent = exponent a + exponent b\<rparr>"

definition dec_add :: "decimal \<Rightarrow> decimal \<Rightarrow> decimal" where
  "dec_add a b =
     (let e = min (exponent a) (exponent b) in
      dec_fix \<lparr>coeff = coeff a * 10 ^ nat (exponent a - e) + coeff b * 10 ^ nat (exponent b - e),
               exponent = e\<rparr>)"

text \<open>
  \<^verbatim>\<open>a.quantize(Decimal('0.01'))\<close> is \<open>quantize a (-2)\<close>: the value at the given
  exponent, rounded half-even; \<^verbatim>\<open>InvalidOperation\<close> when the result has more
  digits than the precision. \<open>quantize_prec\<close> is the same in a context of another
  precision, as the framework's \<^verbatim>\<open>DecimalField\<close> calls it.
\<close>

definition quantize_prec :: "nat \<Rightarrow> decimal \<Rightarrow> int \<Rightarrow> error + decimal" where
  "quantize_prec p a e =
     (let c = (if e \<le> exponent a then coeff a * 10 ^ nat (exponent a - e)
               else round_half_even_div (coeff a) (10 ^ nat (e - exponent a))) in
      if 10 ^ p \<le> \<bar>c\<bar> then Inl InvalidOperation
      else Inr \<lparr>coeff = c, exponent = e\<rparr>)"

definition quantize :: "decimal \<Rightarrow> int \<Rightarrow> error + decimal" where
  "quantize a e = quantize_prec prec a e"

text \<open>The rational number a decimal stands for.\<close>

definition dec_value :: "decimal \<Rightarrow> rat" where
  "dec_value d =
     (if 0 \<le> exponent d then of_int (coeff d) * 10 ^ nat (exponent d)
      else of_int (coeff d) / 10 ^ nat (- exponent d))"

subsection \<open>The rows of the tables\<close>

text \<open>
  \<^verbatim>\<open>models.py\<close> is not part of the file: the records have the attributes the
  serializers read and write. \<^verbatim>\<open>User\<close> is Django's own model.
\<close>

record user =
  u_id :: nat
  username :: string

record category =
  cat_id :: nat
  slug :: string
  title :: string

record menu_item =
  mi_id :: nat
  name :: string
  price :: decimal
  inventory :: int
  category :: category
  is_item_of_the_day :: bool

record rating =
  r_id :: nat
  r_user :: nat
  r_menu_item :: nat
  score :: int
  comment :: "string option"

record cart_item =
  ci_id :: nat
  ci_user :: nat
  ci_menu_item :: nat
  ci_quantity :: int
  ci_unit_price :: decimal

record order_item =
  oi_id :: nat
  oi_menu_item :: menu_item
  oi_quantity :: int
  oi_unit_price :: decimal

record 's order =
  o_id :: nat
  o_user :: user
  o_delivery_crew :: "user option"
  o_status :: 's
  o_total :: decimal
  o_date :: string
  o_items :: "order_item list"

subsection \<open>Serializer fields and the output representation\<close>

text \<open>
  The value a serializer puts under a key. \<open>RDecStr\<close> is a decimal written out as a
  string (\<^verbatim>\<open>coerce_to_string\<close>), \<open>RDec\<close> a \<^verbatim>\<open>Decimal\<close> object.
\<close>

datatype repr =
  RNull
  | RInt int
  | RBool bool
  | RStr string
  | RDec decimal
  | RDecStr decimal
  | RObj "(string \<times> repr) list"
  | RList "repr list"

record 'a field =
  field_name :: string
  read_only :: bool
  write_only :: bool
  to_repr :: "'a \<Rightarrow> error + repr"

text \<open>
  \<^verbatim>\<open>Serializer.to_representation\<close>: one entry for each readable field (a field that
  is not write-only), in the order of \<^verbatim>\<open>Meta.fields\<close>; an exception of a field
  ends it.
\<close>

fun represent :: "'a field list \<Rightarrow> 'a \<Rightarrow> error + (string \<times> repr) list" where
  "represent [] obj = Inr []"
| "represent (f # fs) obj =
     (case to_repr f obj of
        Inl e \<Rightarrow> Inl e
      | Inr v \<Rightarrow>
          (case represent fs obj of
             Inl e \<Rightarrow> Inl e
           | Inr rest \<Rightarrow> Inr ((field_name f, v) # rest)))"

definition readable_fields :: "'a field list \<Rightarrow> 'a field list" where
  "readable_fields fs = filter (\<lambda>f. \<not> write_only f) fs"

definition to_representation :: "'a field list \<Rightarrow> 'a \<Rightarrow> error + (string \<times> repr) list" where
  "to_representation fs obj = represent (readable_fields fs) obj"

text \<open>\<^verbatim>\<open>DecimalField(max_digits, decimal_places, coerce_to_string=True)\<close> on output.\<close>

definition DecimalField_to_representation :: "nat \<Rightarrow> nat \<Rightarrow> decimal \<Rightarrow> error + repr" where
  "DecimalField_to_representation max_digits decimal_places v =
     (case quantize_prec max_digits v (- int decimal_places) of
        Inl e \<Rightarrow> Inl e
      | Inr q \<Rightarrow> Inr (RDecStr q))"

subsection \<open>\<^verbatim>\<open>CategoryMiniSerializer\<close>\<close>

definition CategoryMiniSerializer_fields :: "category field list" where
  "CategoryMiniSerializer_fields =
     [\<lparr>field_name = ''id'', read_only = True, write_only = False,
        to_repr = (\<lambda>c. Inr (RInt (int (cat_id c))))\<rparr>,
      \<lparr>field_name = ''name'', read_only = False, write_only = False,
        to_repr = (\<lambda>c. Inr (RStr (title c)))\<rparr>]"

subsection \<open>\<^verbatim>\<open>MenuItemSerializer\<close>\<close>

definition tax_rate :: decimal where
  "tax_rate = \<lparr>coeff = 10, exponent = - 2\<rparr>"

definition get_price_after_tax :: "menu_item \<Rightarrow> error + decimal" where
  "get_price_after_tax obj =
     quantize (dec_add (price obj) (dec_mul (price obj) tax_rate)) (- 2)"

definition MenuItemSerializer_fields :: "menu_item field list" where
  "MenuItemSerializer_fields =
     [\<lparr>field_name = ''id'', read_only = True, write_only = False,
        to_repr = (\<lambda>obj. Inr (RInt (int (mi_id obj))))\<rparr>,
      \<lparr>field_name = ''dish'', read_only = False, write_only = False,
        to_repr = (\<lambda>obj. Inr (RStr (name obj)))\<rparr>,
      \<lparr>field_name = ''price'', read_only = False, write_only = False,
        to_repr = (\<lambda>obj. DecimalField_to_representation 6 2 (price obj))\<rparr>,
      \<lparr>field_name = ''price_after_tax'', read_only = True, write_only = False,
        to_repr = (\<lambda>obj. case get_price_after_tax obj of Inl e \<Rightarrow> Inl e | Inr d \<Rightarrow> Inr (RDec d))\<rparr>,
      \<lparr>field_name = ''stock'', read_only = False, write_only = False,
        to_repr = (\<lambda>obj. Inr (RInt (inventory obj)))\<rparr>,
      \<lparr>field_name = ''category'', read_only = True, write_only = False,
        to_repr = (\<lambda>obj. case to_representation CategoryMiniSerializer_fields (category obj) of
                            Inl e \<Rightarrow> Inl e | Inr r \<Rightarrow> Inr (RObj r))\<rparr>,
      \<lparr>field_name = ''category_id'', read_only = False, write_only = True,
        to_repr = (\<lambda>obj. Inr (RInt (int (cat_id (category obj)))))\<rparr>,
      \<lparr>field_name = ''is_item_of_the_day'', read_only = True, write_only = False,
        to_repr = (\<lambda>obj. Inr (RBool (is_item_of_the_day obj)))\<rparr>]"

text \<open>
  \<^verbatim>\<open>name__iexact\<close>: equality of the two strings up to the case of the ASCII letters,
  as the \<^verbatim>\<open>LIKE\<close> of SQLite (Django's default database) compares.
\<close>

definition lower_char :: "char \<Rightarrow> char" where
  "lower_char c =
     (let n = (of_char c :: nat) in if 65 \<le> n \<and> n \<le> 90 then char_of (n + 32) else c)"

definition iexact :: "string \<Rightarrow> string \<Rightarrow> bool" where
  "iexact a b = (map lower_char a = map lower_char b)"

text \<open>
  \<^verbatim>\<open>objects\<close> is the table \<^verbatim>\<open>MenuItem.objects\<close>, \<^verbatim>\<open>instance\<close> is
  \<^verbatim>\<open>self.instance\<close>: the row being updated, \<open>None\<close> on a create.
\<close>

definition MenuItemSerializer_validate_dish ::
    "menu_item list \<Rightarrow> menu_item option \<Rightarrow> string \<Rightarrow> error + string" where
  "MenuItemSerializer_validate_dish objects instance v =
     (let qs = filter (\<lambda>m. iexact (name m) v) objects;
          qs = (case instance of
                  Some i \<Rightarrow> filter (\<lambda>m. mi_id m \<noteq> mi_id i) qs
                | None \<Rightarrow> qs) in
      if qs \<noteq> [] then Inl (ValidationError [''Ya existe un plato con ese nombre.''])
      else Inr v)"

subsection \<open>\<^verbatim>\<open>SingleItemSerializer\<close>\<close>

definition SingleItemSerializer_validate_dish ::
    "menu_item list \<Rightarrow> menu_item option \<Rightarrow> string \<Rightarrow> error + string" where
  "SingleItemSerializer_validate_dish objects instance v =
     (let qs = filter (\<lambda>m. iexact (name m) v) objects;
          qs = (case instance of
                  Some i \<Rightarrow> filter (\<lambda>m. mi_id m \<noteq> mi_id i) qs
                | None \<Rightarrow> qs) in
      if qs \<noteq> [] then Inl (ValidationError [''Ya existe un plato con ese nombre.''])
      else Inr v)"

subsection \<open>Validation of input fields\<close>

text \<open>
  What \<^verbatim>\<open>Field.run_validation\<close> does with the value of one field: the field is
  skipped (\<^verbatim>\<open>SkipField\<close>), fails with messages (\<^verbatim>\<open>ValidationError\<close>, which the
  serializer collects), yields the validated value, or raises an exception the serializer
  does not catch.
\<close>

datatype 'a outcome =
  Skip
  | Fail "string list"
  | Val 'a
  | Raise error

fun raised :: "'a outcome \<Rightarrow> error option" where
  "raised (Raise e) = Some e"
| "raised _ = None"

fun failures :: "string \<Rightarrow> 'a outcome \<Rightarrow> (string \<times> string list) list" where
  "failures k (Fail msgs) = [(k, msgs)]"
| "failures k _ = []"

fun validated :: "'a outcome \<Rightarrow> 'a option" where
  "validated (Val v) = Some v"
| "validated _ = None"

text \<open>
  \<^verbatim>\<open>queryset.get(...)\<close> inside a related field: no row is the field's error
  \<^verbatim>\<open>does_not_exist\<close>, several rows raise out of the serializer.
\<close>

definition related_get :: "('a \<Rightarrow> bool) \<Rightarrow> 'a list \<Rightarrow> 'a outcome" where
  "related_get p objects =
     (case filter p objects of
        [] \<Rightarrow> Fail [''does_not_exist'']
      | [obj] \<Rightarrow> Val obj
      | _ \<Rightarrow> Raise MultipleObjectsReturned)"

text \<open>The primary key the database gives a new row.\<close>

definition fresh_id :: "nat list \<Rightarrow> nat" where
  "fresh_id ids = Suc (foldr max ids 0)"

subsection \<open>\<^verbatim>\<open>RatingSerializer\<close>\<close>

text \<open>
  The keyword arguments of an integer field. A model serializer builds the field of a
  name of \<^verbatim>\<open>Meta.fields\<close> from the model's field, then updates the arguments with
  the entry of \<^verbatim>\<open>Meta.extra_kwargs\<close> under the same name, if there is one.
  The bounds the model's own field brings (\<^verbatim>\<open>models.py\<close>) are the parameter
  \<open>model_field\<close>.
\<close>

record int_kwargs =
  min_value :: "int option"
  max_value :: "int option"

definition RatingSerializer_fields :: "string list" where
  "RatingSerializer_fields = [''id'', ''menu_item'', ''score'', ''comment'', ''user'']"

definition RatingSerializer_extra_kwargs :: "(string \<times> int_kwargs) list" where
  "RatingSerializer_extra_kwargs = [(''rating'', \<lparr>min_value = Some 0, max_value = Some 5\<rparr>)]"

definition include_extra_kwargs :: "int_kwargs \<Rightarrow> int_kwargs \<Rightarrow> int_kwargs" where
  "include_extra_kwargs kwargs extra =
     \<lparr>min_value = (case min_value extra of Some v \<Rightarrow> Some v | None \<Rightarrow> min_value kwargs),
      max_value = (case max_value extra of Some v \<Rightarrow> Some v | None \<Rightarrow> max_value kwargs)\<rparr>"

definition build_field ::
    "(string \<Rightarrow> int_kwargs) \<Rightarrow> (string \<times> int_kwargs) list \<Rightarrow> string \<Rightarrow> int_kwargs" where
  "build_field model_field extra_kwargs fname =
     include_extra_kwargs (model_field fname)
       (case map_of extra_kwargs fname of
          Some extra \<Rightarrow> extra
        | None \<Rightarrow> \<lparr>min_value = None, max_value = None\<rparr>)"

definition RatingSerializer_score_field :: "(string \<Rightarrow> int_kwargs) \<Rightarrow> int_kwargs" where
  "RatingSerializer_score_field model_field =
     build_field model_field RatingSerializer_extra_kwargs ''score''"

definition IntegerField_run_validation :: "int_kwargs \<Rightarrow> int \<Rightarrow> int outcome" where
  "IntegerField_run_validation kwargs v =
     (let errors =
        (case max_value kwargs of
           Some hi \<Rightarrow> if hi < v then [''max_value''] else []
         | None \<Rightarrow> []) @
        (case min_value kwargs of
           Some lo \<Rightarrow> if v < lo then [''min_value''] else []
         | None \<Rightarrow> []) in
      if errors \<noteq> [] then Fail errors else Val v)"

text \<open>
  \<^verbatim>\<open>UniqueTogetherValidator\<close> on \<^verbatim>\<open>['user', 'menu_item']\<close>: the rows of the
  queryset with the two values, the instance being updated apart.
\<close>

definition UniqueTogetherValidator ::
    "rating list \<Rightarrow> rating option \<Rightarrow> nat \<Rightarrow> nat \<Rightarrow> error + unit" where
  "UniqueTogetherValidator queryset instance usr item =
     (let qs = filter (\<lambda>r. r_user r = usr \<and> r_menu_item r = item) queryset;
          qs = (case instance of
                  Some i \<Rightarrow> filter (\<lambda>r. r_id r \<noteq> r_id i) qs
                | None \<Rightarrow> qs) in
      if qs \<noteq> [] then Inl (ValidationError [''You have already rated this menu item.''])
      else Inr ())"

text \<open>
  A submission gives the menu item and the score; the comment and the user may be absent,
  and an absent user is the user of the request (\<^verbatim>\<open>CurrentUserDefault\<close>).
\<close>

record rating_data =
  d_menu_item :: nat
  d_score :: int
  d_comment :: "string option"
  d_user :: "nat option"

record rating_validated =
  v_menu_item :: menu_item
  v_score :: int
  v_comment :: "string option"
  v_user :: user

definition RatingSerializer_to_internal_value ::
    "(string \<Rightarrow> int_kwargs) \<Rightarrow> user list \<Rightarrow> menu_item list \<Rightarrow> user \<Rightarrow> rating_data
      \<Rightarrow> error + rating_validated" where
  "RatingSerializer_to_internal_value model_field users menu_items request_user data =
     (let item = related_get (\<lambda>m. mi_id m = d_menu_item data) menu_items;
          sc = IntegerField_run_validation (RatingSerializer_score_field model_field) (d_score data);
          usr = (case d_user data of
                   None \<Rightarrow> Val request_user
                 | Some pk \<Rightarrow> related_get (\<lambda>u. u_id u = pk) users) in
      case raised item of Some e \<Rightarrow> Inl e | None \<Rightarrow>
      case raised usr of Some e \<Rightarrow> Inl e | None \<Rightarrow>
      (case (validated item, validated sc, validated usr) of
         (Some m, Some s, Some u) \<Rightarrow>
           Inr \<lparr>v_menu_item = m, v_score = s, v_comment = d_comment data, v_user = u\<rparr>
       | _ \<Rightarrow>
           Inl (ValidationErrors
             (failures ''menu_item'' item @ failures ''score'' sc @ failures ''user'' usr))))"

definition RatingSerializer_run_validation ::
    "(string \<Rightarrow> int_kwargs) \<Rightarrow> user list \<Rightarrow> menu_item list \<Rightarrow> rating list \<Rightarrow> user
      \<Rightarrow> rating_data \<Rightarrow> error + rating_validated" where
  "RatingSerializer_run_validation model_field users menu_items ratings request_user data =
     (case RatingSerializer_to_internal_value model_field users menu_items request_user data of
        Inl e \<Rightarrow> Inl e
      | Inr v \<Rightarrow>
          (case UniqueTogetherValidator ratings None (u_id (v_user v)) (mi_id (v_menu_item v)) of
             Inl (ValidationError msgs) \<Rightarrow> Inl (ValidationErrors [(''non_field_errors'', msgs)])
           | Inl e \<Rightarrow> Inl e
           | Inr _ \<Rightarrow> Inr v))"

text \<open>
  \<^verbatim>\<open>is_valid\<close> and \<^verbatim>\<open>save\<close> of a new rating: the row is created from the validated
  data (\<^verbatim>\<open>ModelSerializer.create\<close>). The table is returned with the new row.
\<close>

definition RatingSerializer_save ::
    "(string \<Rightarrow> int_kwargs) \<Rightarrow> user list \<Rightarrow> menu_item list \<Rightarrow> rating list \<Rightarrow> user
      \<Rightarrow> rating_data \<Rightarrow> error + rating list \<times> rating" where
  "RatingSerializer_save model_field users menu_items ratings request_user data =
     (case RatingSerializer_run_validation model_field users menu_items ratings request_user data of
        Inl e \<Rightarrow> Inl e
      | Inr v \<Rightarrow>
          (let obj = \<lparr>r_id = fresh_id (map r_id ratings), r_user = u_id (v_user v),
                      r_menu_item = mi_id (v_menu_item v), score = v_score v,
                      comment = v_comment v\<rparr> in
           Inr (ratings @ [obj], obj)))"

subsection \<open>\<^verbatim>\<open>CartItemSerializer\<close>\<close>

text \<open>
  \<^verbatim>\<open>CartItem.objects.get_or_create(user=..., menu_item=..., defaults=...)\<close>: the row
  of the user and the menu item when there is one, a new row with the defaults when there
  is none; \<^verbatim>\<open>get\<close> raises when there are several. The table is returned with the
  row, and whether the row was created.
\<close>

definition get_or_create ::
    "cart_item list \<Rightarrow> nat \<Rightarrow> nat \<Rightarrow> int \<Rightarrow> decimal
      \<Rightarrow> error + cart_item list \<times> cart_item \<times> bool" where
  "get_or_create objects usr item quantity unit_price =
     (case filter (\<lambda>c. ci_user c = usr \<and> ci_menu_item c = item) objects of
        [] \<Rightarrow>
          (let obj = \<lparr>ci_id = fresh_id (map ci_id objects), ci_user = usr, ci_menu_item = item,
                      ci_quantity = quantity, ci_unit_price = unit_price\<rparr> in
           Inr (objects @ [obj], obj, True))
      | [obj] \<Rightarrow> Inr (objects, obj, False)
      | _ \<Rightarrow> Inl MultipleObjectsReturned)"

text \<open>\<^verbatim>\<open>obj.save()\<close>: the row of the primary key is written, or inserted if absent.\<close>

definition save :: "cart_item list \<Rightarrow> cart_item \<Rightarrow> cart_item list" where
  "save objects obj =
     (if ci_id obj \<in> set (map ci_id objects)
      then map (\<lambda>c. if ci_id c = ci_id obj then obj else c) objects
      else objects @ [obj])"

record cart_validated =
  cv_menu_item :: menu_item
  cv_quantity :: "int option"

definition CartItemSerializer_create ::
    "cart_item list \<Rightarrow> user \<Rightarrow> cart_validated \<Rightarrow> error + cart_item list \<times> cart_item" where
  "CartItemSerializer_create objects usr validated_data =
     (let item = cv_menu_item validated_data;
          quantity = (case cv_quantity validated_data of Some q \<Rightarrow> q | None \<Rightarrow> 1) in
      case get_or_create objects (u_id usr) (mi_id item) quantity (price item) of
        Inl e \<Rightarrow> Inl e
      | Inr (objects', obj, created) \<Rightarrow>
          if \<not> created then
            (let obj' = obj\<lparr>ci_quantity := ci_quantity obj + quantity\<rparr> in
             Inr (save objects' obj', obj'))
          else Inr (objects', obj))"

subsection \<open>The order serializers\<close>

text \<open>
  What \<^verbatim>\<open>models.py\<close> declares for the fields the order serializers take from the
  model, as parameters: how the status, the total and a unit price are written out,
  whether the status is required on input, and how a status given on input validates.
\<close>

datatype json = JNull | JStr string

record 's order_model =
  status_to_repr :: "'s \<Rightarrow> repr"
  total_to_repr :: "decimal \<Rightarrow> error + repr"
  unit_price_to_repr :: "decimal \<Rightarrow> error + repr"
  status_required :: bool
  status_validate :: "json \<Rightarrow> 's outcome"

text \<open>
  Modelled from the spec: the property \<^verbatim>\<open>OrderItem.total_price\<close> of
  \<^verbatim>\<open>models.py\<close>, which the file reads and does not define. The spec: derived total
  price = quantity \<times> unit price, in exact decimal arithmetic.
\<close>

definition line_total :: "decimal \<Rightarrow> int \<Rightarrow> decimal" where
  "line_total unit_price quantity =
     \<lparr>coeff = coeff unit_price * quantity, exponent = exponent unit_price\<rparr>"

definition total_price :: "order_item \<Rightarrow> decimal" where
  "total_price obj = line_total (oi_unit_price obj) (oi_quantity obj)"

definition get_total_price :: "order_item \<Rightarrow> decimal" where
  "get_total_price obj = total_price obj"

definition OrderItemReadSerializer_fields :: "'s order_model \<Rightarrow> order_item field list" where
  "OrderItemReadSerializer_fields M =
     [\<lparr>field_name = ''id'', read_only = True, write_only = False,
        to_repr = (\<lambda>obj. Inr (RInt (int (oi_id obj))))\<rparr>,
      \<lparr>field_name = ''menu_item'', read_only = False, write_only = False,
        to_repr = (\<lambda>obj. Inr (RInt (int (mi_id (oi_menu_item obj)))))\<rparr>,
      \<lparr>field_name = ''dish'', read_only = True, write_only = False,
        to_repr = (\<lambda>obj. Inr (RStr (name (oi_menu_item obj))))\<rparr>,
      \<lparr>field_name = ''quantity'', read_only = False, write_only = False,
        to_repr = (\<lambda>obj. Inr (RInt (oi_quantity obj)))\<rparr>,
      \<lparr>field_name = ''unit_price'', read_only = False, write_only = False,
        to_repr = (\<lambda>obj. unit_price_to_repr M (oi_unit_price obj))\<rparr>,
      \<lparr>field_name = ''total_price'', read_only = True, write_only = False,
        to_repr = (\<lambda>obj. Inr (RDec (get_total_price obj)))\<rparr>]"

text \<open>A serializer with \<^verbatim>\<open>many=True\<close>: the list of the representations.\<close>

fun represent_many :: "'a field list \<Rightarrow> 'a list \<Rightarrow> error + repr list" where
  "represent_many fs [] = Inr []"
| "represent_many fs (obj # objs) =
     (case to_representation fs obj of
        Inl e \<Rightarrow> Inl e
      | Inr r \<Rightarrow>
          (case represent_many fs objs of
             Inl e \<Rightarrow> Inl e
           | Inr rest \<Rightarrow> Inr (RObj r # rest)))"

definition get_delivery_crew :: "'s order \<Rightarrow> repr" where
  "get_delivery_crew obj =
     (case o_delivery_crew obj of Some crew \<Rightarrow> RStr (username crew) | None \<Rightarrow> RNull)"

definition OrderReadSerializer_fields :: "'s order_model \<Rightarrow> 's order field list" where
  "OrderReadSerializer_fields M =
     [\<lparr>field_name = ''id'', read_only = True, write_only = False,
        to_repr = (\<lambda>obj. Inr (RInt (int (o_id obj))))\<rparr>,
      \<lparr>field_name = ''user'', read_only = True, write_only = False,
        to_repr = (\<lambda>obj. Inr (RStr (username (o_user obj))))\<rparr>,
      \<lparr>field_name = ''delivery_crew'', read_only = True, write_only = False,
        to_repr = (\<lambda>obj. Inr (get_delivery_crew obj))\<rparr>,
      \<lparr>field_name = ''status'', read_only = False, write_only = False,
        to_repr = (\<lambda>obj. Inr (status_to_repr M (o_status obj)))\<rparr>,
      \<lparr>field_name = ''total'', read_only = False, write_only = False,
        to_repr = (\<lambda>obj. total_to_repr M (o_total obj))\<rparr>,
      \<lparr>field_name = ''date'', read_only = False, write_only = False,
        to_repr = (\<lambda>obj. Inr (RStr (o_date obj)))\<rparr>,
      \<lparr>field_name = ''items'', read_only = True, write_only = False,
        to_repr = (\<lambda>obj. case represent_many (OrderItemReadSerializer_fields M) (o_items obj) of
                            Inl e \<Rightarrow> Inl e | Inr rs \<Rightarrow> Inr (RList rs))\<rparr>]"

text \<open>
  An update request is a dictionary of the keys it contains. A serializer reads the keys
  of its writable fields and no other key. A key that is absent: the field is skipped on
  a partial update or when it is not required, and fails with \<^verbatim>\<open>required\<close> otherwise.
\<close>

definition empty_value :: "bool \<Rightarrow> bool \<Rightarrow> 'a outcome" where
  "empty_value partial required =
     (if partial then Skip else if required then Fail [''required''] else Skip)"

text \<open>
  \<^verbatim>\<open>SlugRelatedField(slug_field='username', queryset=User.objects.all(),
  allow_null=True, required=False)\<close>.
\<close>

definition delivery_crew_run_validation ::
    "bool \<Rightarrow> user list \<Rightarrow> json option \<Rightarrow> user option outcome" where
  "delivery_crew_run_validation partial users data =
     (case data of
        None \<Rightarrow> empty_value partial False
      | Some JNull \<Rightarrow> Val None
      | Some (JStr s) \<Rightarrow>
          (case related_get (\<lambda>u. username u = s) users of
             Val u \<Rightarrow> Val (Some u)
           | Fail msgs \<Rightarrow> Fail msgs
           | Raise e \<Rightarrow> Raise e
           | Skip \<Rightarrow> Skip))"

definition status_run_validation ::
    "bool \<Rightarrow> 's order_model \<Rightarrow> json option \<Rightarrow> 's outcome" where
  "status_run_validation partial M data =
     (case data of
        None \<Rightarrow> empty_value partial (status_required M)
      | Some v \<Rightarrow> status_validate M v)"

record 's order_validated =
  ov_delivery_crew :: "user option option"
  ov_status :: "'s option"

text \<open>\<^verbatim>\<open>ModelSerializer.update\<close>: each validated attribute is set on the instance.\<close>

definition update :: "'s order \<Rightarrow> 's order_validated \<Rightarrow> 's order" where
  "update instance validated_data =
     (let instance = (case ov_delivery_crew validated_data of
                        Some crew \<Rightarrow> instance\<lparr>o_delivery_crew := crew\<rparr>
                      | None \<Rightarrow> instance) in
      case ov_status validated_data of
        Some st \<Rightarrow> instance\<lparr>o_status := st\<rparr>
      | None \<Rightarrow> instance)"

text \<open>\<^verbatim>\<open>ManagerOrderUpdateSerializer\<close>, \<^verbatim>\<open>fields = ['delivery_crew', 'status']\<close>.\<close>

definition ManagerOrderUpdateSerializer_to_internal_value ::
    "bool \<Rightarrow> 's order_model \<Rightarrow> user list \<Rightarrow> (string \<rightharpoonup> json) \<Rightarrow> error + 's order_validated" where
  "ManagerOrderUpdateSerializer_to_internal_value partial M users data =
     (let crew = delivery_crew_run_validation partial users (data ''delivery_crew'');
          st = status_run_validation partial M (data ''status'') in
      case raised crew of Some e \<Rightarrow> Inl e | None \<Rightarrow>
      case raised st of Some e \<Rightarrow> Inl e | None \<Rightarrow>
      (let errors = failures ''delivery_crew'' crew @ failures ''status'' st in
       if errors \<noteq> [] then Inl (ValidationErrors errors)
       else Inr \<lparr>ov_delivery_crew = validated crew, ov_status = validated st\<rparr>))"

definition ManagerOrderUpdateSerializer_save ::
    "bool \<Rightarrow> 's order_model \<Rightarrow> user list \<Rightarrow> 's order \<Rightarrow> (string \<rightharpoonup> json) \<Rightarrow> error + 's order" where
  "ManagerOrderUpdateSerializer_save partial M users instance data =
     (case ManagerOrderUpdateSerializer_to_internal_value partial M users data of
        Inl e \<Rightarrow> Inl e
      | Inr validated_data \<Rightarrow> Inr (update instance validated_data))"

text \<open>\<^verbatim>\<open>DeliveryCrewOrderUpdateSerializer\<close>, \<^verbatim>\<open>fields = ['status']\<close>.\<close>

definition DeliveryCrewOrderUpdateSerializer_to_internal_value ::
    "bool \<Rightarrow> 's order_model \<Rightarrow> (string \<rightharpoonup> json) \<Rightarrow> error + 's order_validated" where
  "DeliveryCrewOrderUpdateSerializer_to_internal_value partial M data =
     (let st = status_run_validation partial M (data ''status'') in
      case raised st of Some e \<Rightarrow> Inl e | None \<Rightarrow>
      (let errors = failures ''status'' st in
       if errors \<noteq> [] then Inl (ValidationErrors errors)
       else Inr \<lparr>ov_delivery_crew = None, ov_status = validated st\<rparr>))"

definition DeliveryCrewOrderUpdateSerializer_save ::
    "bool \<Rightarrow> 's order_model \<Rightarrow> 's order \<Rightarrow> (string \<rightharpoonup> json) \<Rightarrow> error + 's order" where
  "DeliveryCrewOrderUpdateSerializer_save partial M instance data =
     (case DeliveryCrewOrderUpdateSerializer_to_internal_value partial M data of
        Inl e \<Rightarrow> Inl e
      | Inr validated_data \<Rightarrow> Inr (update instance validated_data))"

subsection \<open>The spec's rounding\<close>

text \<open>
  The spec's \<^verbatim>\<open>round(x, n)\<close> on the rationals, in the two modes it names: round-half-up
  and banker's rounding (round-half-even).
\<close>

definition round_half_up :: "rat \<Rightarrow> nat \<Rightarrow> rat" where
  "round_half_up x n = of_int \<lfloor>x * 10 ^ n + 1 / 2\<rfloor> / 10 ^ n"

definition round_half_even :: "rat \<Rightarrow> nat \<Rightarrow> rat" where
  "round_half_even x n =
     (let y = x * 10 ^ n; f = \<lfloor>y\<rfloor>; r = y - of_int f in
      of_int (if r < 1 / 2 then f else if 1 / 2 < r then f + 1
              else if even f then f else f + 1) / 10 ^ n)"

text \<open>The total an item view shows, read back from the view.\<close>

fun view_total_price :: "repr \<Rightarrow> repr option" where
  "view_total_price (RObj kv) = map_of kv ''total_price''"
| "view_total_price _ = None"

text \<open>At most one rating for each pair of a user and a menu item.\<close>

definition one_rating_per_pair :: "rating list \<Rightarrow> bool" where
  "one_rating_per_pair ratings = distinct (map (\<lambda>r. (r_user r, r_menu_item r)) ratings)"

subsection \<open>Example rows\<close>

definition example_pasta :: category where
  "example_pasta = \<lparr>cat_id = 1, slug = ''pasta'', title = ''Pasta''\<rparr>"

definition example_lasagna :: menu_item where
  "example_lasagna =
     \<lparr>mi_id = 1, name = ''Lasagna'', price = \<lparr>coeff = 1000, exponent = - 2\<rparr>, inventory = 5,
      category = example_pasta, is_item_of_the_day = False\<rparr>"

definition example_lasagna_repriced :: menu_item where
  "example_lasagna_repriced = example_lasagna\<lparr>price := \<lparr>coeff = 1250, exponent = - 2\<rparr>\<rparr>"

definition example_bruschetta :: menu_item where
  "example_bruschetta =
     \<lparr>mi_id = 2, name = ''Bruschetta'', price = \<lparr>coeff = 215, exponent = - 2\<rparr>, inventory = 0,
      category = example_pasta, is_item_of_the_day = True\<rparr>"

definition example_alice :: user where
  "example_alice = \<lparr>u_id = 1, username = ''alice''\<rparr>"

definition example_bob :: user where
  "example_bob = \<lparr>u_id = 2, username = ''bob''\<rparr>"

definition example_cart :: "cart_item list" where
  "example_cart =
     [\<lparr>ci_id = 7, ci_user = 2, ci_menu_item = 1, ci_quantity = 1,
       ci_unit_price = \<lparr>coeff = 1000, exponent = - 2\<rparr>\<rparr>,
      \<lparr>ci_id = 4, ci_user = 1, ci_menu_item = 2, ci_quantity = 6,
       ci_unit_price = \<lparr>coeff = 215, exponent = - 2\<rparr>\<rparr>]"

text \<open>A model whose score field declares no bound of its own.\<close>

definition example_unbounded :: "string \<Rightarrow> int_kwargs" where
  "example_unbounded fname = \<lparr>min_value = None, max_value = None\<rparr>"

definition example_rating_data :: rating_data where
  "example_rating_data = \<lparr>d_menu_item = 1, d_score = 6, d_comment = None, d_user = None\<rparr>"

text \<open>An order model whose status is one of two names, required on input.\<close>

definition example_order_model :: "string order_model" where
  "example_order_model =
     \<lparr>status_to_repr = RStr,
      total_to_repr = DecimalField_to_representation 6 2,
      unit_price_to_repr = DecimalField_to_representation 6 2,
      status_required = True,
      status_validate = (\<lambda>v. case v of
                           JNull \<Rightarrow> Fail [''null'']
                         | JStr s \<Rightarrow> if s \<in> set [''pending'', ''delivered''] then Val s
                                     else Fail [''invalid_choice''])\<rparr>"

definition example_order_item :: order_item where
  "example_order_item =
     \<lparr>oi_id = 3, oi_menu_item = example_lasagna, oi_quantity = 2,
      oi_unit_price = \<lparr>coeff = 950, exponent = - 2\<rparr>\<rparr>"

text \<open>An order whose stored total is not the sum of its items' totals.\<close>

definition example_order :: "string order" where
  "example_order =
     \<lparr>o_id = 9, o_user = example_alice, o_delivery_crew = Some example_bob,
      o_status = ''pending'', o_total = \<lparr>coeff = 100, exponent = - 2\<rparr>,
      o_date = ''2024-05-01'', o_items = [example_order_item]\<rparr>"

text \<open>The view of the first example row, as the code builds it.\<close>

definition example_lasagna_view :: "(string \<times> repr) list" where
  "example_lasagna_view =
     [(''id'', RInt 1), (''dish'', RStr ''Lasagna''),
      (''price'', RDecStr \<lparr>coeff = 1000, exponent = - 2\<rparr>),
      (''price_after_tax'', RDec \<lparr>coeff = 1100, exponent = - 2\<rparr>),
      (''stock'', RInt 5),
      (''category'', RObj [(''id'', RInt 1), (''name'', RStr ''Pasta'')]),
      (''is_item_of_the_day'', RBool False)]"

text \<open>A first rating of a pair, a second one of the same pair, and the row of the first.\<close>

definition example_first_rating :: rating_data where
  "example_first_rating = \<lparr>d_menu_item = 1, d_score = 4, d_comment = None, d_user = None\<rparr>"

definition example_second_rating :: rating_data where
  "example_second_rating =
     \<lparr>d_menu_item = 1, d_score = 5, d_comment = Some ''again'', d_user = None\<rparr>"

definition example_first_row :: rating where
  "example_first_row = \<lparr>r_id = 1, r_user = 1, r_menu_item = 1, score = 4, comment = None\<rparr>"

text \<open>The view of the example order, as the code builds it.\<close>

definition example_order_view :: "(string \<times> repr) list" where
  "example_order_view =
     [(''id'', RInt 9), (''user'', RStr ''alice''), (''delivery_crew'', RStr ''bob''),
      (''status'', RStr ''pending''),
      (''total'', RDecStr \<lparr>coeff = 100, exponent = - 2\<rparr>),
      (''date'', RStr ''2024-05-01''),
      (''items'',
       RList [RObj [(''id'', RInt 3), (''menu_item'', RInt 1), (''dish'', RStr ''Lasagna''),
                    (''quantity'', RInt 2),
                    (''unit_price'', RDecStr \<lparr>coeff = 950, exponent = - 2\<rparr>),
                    (''total_price'', RDec \<lparr>coeff = 1900, exponent = - 2\<rparr>)]])]"

section \<open>Properties\<close>

subsection \<open>Decimal arithmetic below the precision\<close>

lemma excess_digits_small: "n < 10 ^ prec \<Longrightarrow> excess_digits n = 0"
  by (subst excess_digits.simps) simp

lemma dec_fix_small: "\<bar>coeff d\<bar> < 10 ^ prec \<Longrightarrow> dec_fix d = d"
proof -
  assume "\<bar>coeff d\<bar> < 10 ^ prec"
  then have "nat \<bar>coeff d\<bar> < 10 ^ prec"
    by (simp add: nat_less_iff)
  then show ?thesis
    unfolding dec_fix_def by (simp add: excess_digits_small)
qed

lemma round_half_even_div_rat:
  assumes "0 < d"
  shows "round_half_even_div n d =
     (let y = (of_int n / of_int d :: rat); f = \<lfloor>y\<rfloor>; r = y - of_int f in
      if r < 1 / 2 then f else if 1 / 2 < r then f + 1 else if even f then f else f + 1)"
proof -
  let ?y = "of_int n / of_int d :: rat"
  have f: "\<lfloor>?y\<rfloor> = n div d"
    by (simp add: floor_divide_of_int_eq)
  have "(of_int n :: rat) = of_int (n div d) * of_int d + of_int (n mod d)"
    by (metis mult.commute mult_div_mod_eq of_int_add of_int_mult)
  then have r: "?y - of_int (n div d) = of_int (n mod d) / of_int d"
    using assms by (simp add: field_simps)
  have "(of_int (n mod d) / of_int d < (1 / 2 :: rat)) = (rat_of_int (2 * (n mod d)) < of_int d)"
    using assms by (simp add: field_simps)
  then have lt: "(of_int (n mod d) / of_int d < (1 / 2 :: rat)) = (2 * (n mod d) < d)"
    by (simp only: of_int_less_iff)
  have "((1 / 2 :: rat) < of_int (n mod d) / of_int d) = (rat_of_int d < of_int (2 * (n mod d)))"
    using assms by (simp add: field_simps)
  then have gt: "((1 / 2 :: rat) < of_int (n mod d) / of_int d) = (d < 2 * (n mod d))"
    by (simp only: of_int_less_iff)
  show ?thesis
    unfolding round_half_even_div_def Let_def f r lt gt by simp
qed

lemma round_half_even_div_bounds:
  assumes "0 < d" "0 \<le> n"
  shows "0 \<le> round_half_even_div n d \<and> round_half_even_div n d \<le> n div d + 1"
  using assms unfolding round_half_even_div_def Let_def
  by (auto simp: pos_imp_zdiv_nonneg_iff)

subsection \<open>The price after tax\<close>

text \<open>
  C2, as amended. For a base price of two fractional digits, at least 2.00 and small
  enough that 1.10 times it has no more digits than the precision,
  \<^verbatim>\<open>get_price_after_tax\<close> returns the price times 1.10 rounded to two places, a
  tie going to the even cent: the rounding of \<^verbatim>\<open>quantize\<close> in the default context
  is round-half-even, not round-half-up.
\<close>

theorem price_after_tax_half_even:
  assumes p: "price obj = \<lparr>coeff = c, exponent = - 2\<rparr>"
    and lo: "200 \<le> c" and hi: "c * 110 < 10 ^ 28"
  shows "\<exists>r. get_price_after_tax obj = Inr r \<and> exponent r = - 2 \<and>
           dec_value r = round_half_even (dec_value (price obj) * (11 / 10)) 2"
proof -
  have m: "dec_mul (price obj) tax_rate = \<lparr>coeff = c * 10, exponent = - 4\<rparr>"
    using lo hi unfolding dec_mul_def tax_rate_def p
    by (simp add: dec_fix_small prec_def)
  have a: "dec_add (price obj) \<lparr>coeff = c * 10, exponent = - 4\<rparr> =
      \<lparr>coeff = c * 110, exponent = - 4\<rparr>"
    using lo hi unfolding dec_add_def p
    by (simp add: dec_fix_small prec_def Let_def)
  have b: "0 \<le> round_half_even_div (c * 110) 100 \<and>
      round_half_even_div (c * 110) 100 \<le> c * 110 div 100 + 1"
    using lo by (intro round_half_even_div_bounds) simp_all
  have "c * 110 div 100 < c * 110"
    using lo by (intro int_div_less_self) simp_all
  with b hi have "\<bar>round_half_even_div (c * 110) 100\<bar> < 10 ^ prec"
    unfolding prec_def by linarith
  then have q: "get_price_after_tax obj =
      Inr \<lparr>coeff = round_half_even_div (c * 110) 100, exponent = - 2\<rparr>"
    unfolding get_price_after_tax_def m a quantize_def quantize_prec_def
    by (simp add: Let_def)
  have v: "dec_value (price obj) * (11 / 10) * 10 ^ 2 = of_int (c * 110) / of_int 100"
    unfolding p dec_value_def by simp
  have "dec_value \<lparr>coeff = round_half_even_div (c * 110) 100, exponent = - 2\<rparr> =
      round_half_even (dec_value (price obj) * (11 / 10)) 2"
    unfolding round_half_even_def v
    by (simp add: dec_value_def round_half_even_div_rat Let_def)
  with q show ?thesis by simp
qed

text \<open>C2, witness: the price 10.00 of the example row, whose price after tax is 11.00.\<close>

theorem price_after_tax_half_even_witness:
  "price example_lasagna = \<lparr>coeff = 1000, exponent = - 2\<rparr>
   \<and> (200 :: int) \<le> 1000 \<and> (1000 :: int) * 110 < 10 ^ 28
   \<and> (\<exists>r. get_price_after_tax example_lasagna = Inr r \<and> exponent r = - 2 \<and>
         dec_value r = round_half_even (dec_value (price example_lasagna) * (11 / 10)) 2)"
proof -
  have p: "price example_lasagna = \<lparr>coeff = 1000, exponent = - 2\<rparr>"
    by (simp add: example_lasagna_def)
  have lo: "(200 :: int) \<le> 1000"
    by simp
  have hi: "(1000 :: int) * 110 < 10 ^ 28"
    by simp
  from price_after_tax_half_even [OF p lo hi] p lo hi show ?thesis
    by blast
qed

lemma example_bruschetta_tax:
  "get_price_after_tax example_bruschetta = Inr \<lparr>coeff = 236, exponent = - 2\<rparr>"
  by code_simp

lemma example_bruschetta_half_up:
  "round_half_up (dec_value (price example_bruschetta) * (11 / 10)) 2 = 237 / 100"
  by (simp add: round_half_up_def dec_value_def example_bruschetta_def)

lemma dec_value_236: "dec_value \<lparr>coeff = 236, exponent = - 2\<rparr> = 236 / 100"
  by (simp add: dec_value_def)

text \<open>
  C2, counterexample: the price 2.15. 2.15 times 1.10 is 2.365, a tie: round-half-up
  gives 2.37, the code returns 2.36.
\<close>

theorem price_after_tax_half_up_counterexample:
  "get_price_after_tax example_bruschetta = Inr \<lparr>coeff = 236, exponent = - 2\<rparr>
   \<and> dec_value \<lparr>coeff = 236, exponent = - 2\<rparr>
       \<noteq> round_half_up (dec_value (price example_bruschetta) * (11 / 10)) 2"
  unfolding example_bruschetta_tax example_bruschetta_half_up dec_value_236 by simp

subsection \<open>The two validations of a dish name\<close>

text \<open>
  C10. On the same table, for the same instance and the same name,
  \<^verbatim>\<open>MenuItemSerializer.validate_dish\<close> and \<^verbatim>\<open>SingleItemSerializer.validate_dish\<close>
  return the same: both the name, or both the same error.
\<close>

theorem validate_dish_serializers_agree:
  "MenuItemSerializer_validate_dish objects instance v =
   SingleItemSerializer_validate_dish objects instance v"
  unfolding MenuItemSerializer_validate_dish_def SingleItemSerializer_validate_dish_def
  by (rule refl)

subsection \<open>Uniqueness of a dish name\<close>

lemma validate_dish_cases:
  "MenuItemSerializer_validate_dish objects instance v =
     (if \<exists>m \<in> set objects. iexact (name m) v \<and>
            (case instance of Some i \<Rightarrow> mi_id m \<noteq> mi_id i | None \<Rightarrow> True)
      then Inl (ValidationError [''Ya existe un plato con ese nombre.''])
      else Inr v)"
  unfolding MenuItemSerializer_validate_dish_def Let_def
  by (cases "instance") (auto simp: filter_empty_conv)

text \<open>
  C4. \<^verbatim>\<open>validate_dish\<close> fails with the validation error when a row of the table
  other than the instance being updated (any row, on a create) has the name up to case;
  it returns the name when every row that has the name up to case is the instance being
  updated, so that renaming a row to its own name in any casing is accepted.
\<close>

theorem validate_dish_duplicate:
  "(m \<in> set objects \<and> iexact (name m) v \<and> (\<forall>i. instance = Some i \<longrightarrow> mi_id m \<noteq> mi_id i)
      \<longrightarrow> MenuItemSerializer_validate_dish objects instance v =
            Inl (ValidationError [''Ya existe un plato con ese nombre.'']))
   \<and> ((\<forall>m \<in> set objects. iexact (name m) v \<longrightarrow> mi_id m = mi_id i)
      \<longrightarrow> MenuItemSerializer_validate_dish objects (Some i) v = Inr v)"
  unfolding validate_dish_cases
  by (cases "instance") auto

text \<open>
  C4, witness: with the rows Lasagna and Bruschetta, creating a dish LASAGNA fails, and
  renaming the row Lasagna to lasagna is accepted.
\<close>

theorem validate_dish_duplicate_witness:
  "MenuItemSerializer_validate_dish [example_lasagna, example_bruschetta] None ''LASAGNA'' =
     Inl (ValidationError [''Ya existe un plato con ese nombre.''])
   \<and> MenuItemSerializer_validate_dish [example_lasagna, example_bruschetta]
        (Some example_lasagna) ''lasagna'' = Inr ''lasagna''"
proof -
  have 1: "iexact (name example_lasagna) ''LASAGNA''"
    by code_simp
  have 2: "\<not> iexact (name example_bruschetta) ''lasagna''"
    by code_simp
  have a: "MenuItemSerializer_validate_dish [example_lasagna, example_bruschetta] None ''LASAGNA'' =
     Inl (ValidationError [''Ya existe un plato con ese nombre.''])"
    using validate_dish_duplicate [THEN conjunct1,
        of example_lasagna "[example_lasagna, example_bruschetta]" "''LASAGNA''" None] 1
    by simp
  have b: "MenuItemSerializer_validate_dish [example_lasagna, example_bruschetta]
        (Some example_lasagna) ''lasagna'' = Inr ''lasagna''"
    using validate_dish_duplicate [THEN conjunct2,
        of "[example_lasagna, example_bruschetta]" "''lasagna''" example_lasagna] 2
    by simp
  from a b show ?thesis ..
qed

subsection \<open>The fields of a menu item view\<close>

lemma represent_keys:
  "represent fs obj = Inr r \<Longrightarrow> map fst r = map field_name fs"
proof (induction fs arbitrary: r)
  case Nil
  then show ?case by simp
next
  case (Cons f fs)
  then show ?case
    by (auto split: sum.splits)
qed

lemma to_representation_keys:
  "to_representation fs obj = Inr r \<Longrightarrow> map fst r = map field_name (readable_fields fs)"
  unfolding to_representation_def by (rule represent_keys)

lemma to_representation_Nil: "to_representation [] obj = Inr []"
  by (simp add: to_representation_def readable_fields_def)

lemma to_representation_Cons:
  "to_representation (f # fs) obj =
     (if write_only f then to_representation fs obj
      else (case to_repr f obj of
              Inl e \<Rightarrow> Inl e
            | Inr v \<Rightarrow>
                (case to_representation fs obj of
                   Inl e \<Rightarrow> Inl e
                 | Inr rest \<Rightarrow> Inr ((field_name f, v) # rest))))"
  by (simp add: to_representation_def readable_fields_def split: sum.splits)

lemma example_lasagna_tax:
  "get_price_after_tax example_lasagna = Inr \<lparr>coeff = 1100, exponent = - 2\<rparr>"
  by code_simp

lemma example_lasagna_price:
  "DecimalField_to_representation 6 2 (price example_lasagna) =
     Inr (RDecStr \<lparr>coeff = 1000, exponent = - 2\<rparr>)"
  by (simp add: DecimalField_to_representation_def quantize_prec_def example_lasagna_def)

lemma example_pasta_view:
  "to_representation CategoryMiniSerializer_fields (category example_lasagna) =
     Inr [(''id'', RInt 1), (''name'', RStr ''Pasta'')]"
  by (simp add: to_representation_Nil to_representation_Cons CategoryMiniSerializer_fields_def
      example_lasagna_def example_pasta_def)

lemma example_lasagna_attrs:
  "mi_id example_lasagna = 1" "name example_lasagna = ''Lasagna''"
  "inventory example_lasagna = 5" "is_item_of_the_day example_lasagna = False"
  by (simp_all add: example_lasagna_def)

lemma example_lasagna_representation:
  "to_representation MenuItemSerializer_fields example_lasagna = Inr example_lasagna_view"
  by (simp add: to_representation_Nil to_representation_Cons MenuItemSerializer_fields_def
      example_lasagna_tax example_lasagna_price example_pasta_view example_lasagna_attrs
      example_lasagna_view_def)

text \<open>
  C9, as amended. The view of a menu item has exactly the keys id, dish, price,
  price_after_tax, stock, category and is_item_of_the_day, in this order.
  \<^verbatim>\<open>category_id\<close> is declared \<^verbatim>\<open>write_only\<close>: it is read from the input and is
  not part of the view.
\<close>

theorem menu_item_view_fields:
  assumes "to_representation MenuItemSerializer_fields obj = Inr r"
  shows "map fst r =
    [''id'', ''dish'', ''price'', ''price_after_tax'', ''stock'', ''category'',
     ''is_item_of_the_day'']"
  using to_representation_keys [OF assms]
  by (simp add: readable_fields_def MenuItemSerializer_fields_def)

text \<open>C9, witness: the view of the example row.\<close>

theorem menu_item_view_fields_witness:
  "to_representation MenuItemSerializer_fields example_lasagna = Inr example_lasagna_view
   \<and> map fst example_lasagna_view =
    [''id'', ''dish'', ''price'', ''price_after_tax'', ''stock'', ''category'',
     ''is_item_of_the_day'']"
  using menu_item_view_fields [OF example_lasagna_representation]
    example_lasagna_representation
  by simp

text \<open>C9, counterexample: the view of the example row has no key \<^verbatim>\<open>category_id\<close>.\<close>

theorem menu_item_view_category_id_counterexample:
  "to_representation MenuItemSerializer_fields example_lasagna = Inr example_lasagna_view
   \<and> ''category_id'' \<notin> set (map fst example_lasagna_view)"
  by (simp add: example_lasagna_representation) (simp add: example_lasagna_view_def)

subsection \<open>The range of a rating's score\<close>

lemma include_no_extra:
  "include_extra_kwargs kwargs \<lparr>min_value = None, max_value = None\<rparr> = kwargs"
  by (simp add: include_extra_kwargs_def)

text \<open>
  The bounds of \<^verbatim>\<open>Meta.extra_kwargs\<close> are filed under \<^verbatim>\<open>rating\<close>, which is not
  a field of the serializer: the field \<^verbatim>\<open>score\<close> is built with the bounds of the
  model's field alone.
\<close>

lemma score_field_from_model:
  "RatingSerializer_score_field model_field = model_field ''score''"
  by (simp add: RatingSerializer_score_field_def build_field_def
      RatingSerializer_extra_kwargs_def include_no_extra)

lemma extra_kwargs_key_not_a_field:
  "map fst RatingSerializer_extra_kwargs = [''rating''] \<and>
   ''rating'' \<notin> set RatingSerializer_fields"
  by (simp add: RatingSerializer_extra_kwargs_def RatingSerializer_fields_def)

text \<open>
  C3, the code at the failing input: with a model whose score field has no bound of its
  own, a first rating with the score 6 is valid and is saved.
\<close>

theorem rating_score_6_accepted:
  "RatingSerializer_save example_unbounded [example_alice, example_bob]
     [example_lasagna, example_bruschetta] [] example_alice example_rating_data =
   Inr ([\<lparr>r_id = 1, r_user = 1, r_menu_item = 1, score = 6, comment = None\<rparr>],
        \<lparr>r_id = 1, r_user = 1, r_menu_item = 1, score = 6, comment = None\<rparr>)"
  by code_simp

subsection \<open>Adding to the cart twice\<close>

lemma foldr_max_ge: "x \<in> set ids \<Longrightarrow> x \<le> foldr max ids (0 :: nat)"
  by (induction ids) auto

lemma fresh_id_fresh: "fresh_id ids \<notin> set ids"
proof
  assume "fresh_id ids \<in> set ids"
  then have "fresh_id ids \<le> foldr max ids 0"
    by (rule foldr_max_ge)
  then show False
    by (simp add: fresh_id_def)
qed

lemma save_last:
  assumes "ci_id obj \<notin> set (map ci_id objects)" and "ci_id obj' = ci_id obj"
  shows "save (objects @ [obj]) obj' = objects @ [obj']"
proof -
  have "map (\<lambda>c. if ci_id c = ci_id obj then obj' else c) objects = objects"
    using assms(1) by (induction objects) auto
  then show ?thesis
    using assms(2) by (simp add: save_def)
qed

text \<open>
  C1. From a cart with no row for the user and the menu item, an add with the quantity
  \<open>q1\<close> and then an add with the quantity \<open>q2\<close> for the same user and the same menu
  item (the second add sees the menu item at whatever price it has by then) both succeed
  and leave exactly one row for the pair: its quantity is \<open>q1 + q2\<close> and its unit price
  is the price of the menu item at the first add.
\<close>

theorem cart_add_twice:
  assumes absent: "filter (\<lambda>c. ci_user c = u_id usr \<and> ci_menu_item c = mi_id item) objects = []"
    and same: "mi_id item' = mi_id item"
  shows "\<exists>objects1 obj1 objects2 obj2.
      CartItemSerializer_create objects usr \<lparr>cv_menu_item = item, cv_quantity = Some q1\<rparr>
        = Inr (objects1, obj1)
      \<and> CartItemSerializer_create objects1 usr \<lparr>cv_menu_item = item', cv_quantity = Some q2\<rparr>
        = Inr (objects2, obj2)
      \<and> filter (\<lambda>c. ci_user c = u_id usr \<and> ci_menu_item c = mi_id item) objects2 = [obj2]
      \<and> ci_quantity obj2 = q1 + q2
      \<and> ci_unit_price obj2 = price item"
proof -
  let ?P = "\<lambda>c. ci_user c = u_id usr \<and> ci_menu_item c = mi_id item"
  define obj1 where "obj1 = \<lparr>ci_id = fresh_id (map ci_id objects), ci_user = u_id usr,
    ci_menu_item = mi_id item, ci_quantity = q1, ci_unit_price = price item\<rparr>"
  define obj2 where "obj2 = obj1\<lparr>ci_quantity := ci_quantity obj1 + q2\<rparr>"
  have first: "CartItemSerializer_create objects usr \<lparr>cv_menu_item = item, cv_quantity = Some q1\<rparr>
      = Inr (objects @ [obj1], obj1)"
    using absent by (simp add: CartItemSerializer_create_def get_or_create_def obj1_def Let_def)
  have found: "filter ?P (objects @ [obj1]) = [obj1]"
    using absent by (simp add: obj1_def)
  have fresh: "ci_id obj1 \<notin> set (map ci_id objects)"
    using fresh_id_fresh [of "map ci_id objects"] by (simp add: obj1_def)
  have saved: "save (objects @ [obj1]) obj2 = objects @ [obj2]"
    using fresh by (rule save_last) (simp add: obj2_def)
  have again: "get_or_create (objects @ [obj1]) (u_id usr) (mi_id item') q2 (price item')
      = Inr (objects @ [obj1], obj1, False)"
    unfolding get_or_create_def same found by simp
  have second: "CartItemSerializer_create (objects @ [obj1]) usr
      \<lparr>cv_menu_item = item', cv_quantity = Some q2\<rparr> = Inr (objects @ [obj2], obj2)"
    unfolding CartItemSerializer_create_def Let_def
    using again saved by (simp add: obj2_def)
  have one: "filter ?P (objects @ [obj2]) = [obj2]"
    using absent by (simp add: obj2_def obj1_def)
  have "ci_quantity obj2 = q1 + q2" "ci_unit_price obj2 = price item"
    by (simp_all add: obj2_def obj1_def)
  with first second one show ?thesis
    by blast
qed

text \<open>
  C1, witness: a cart with rows of other pairs; 2 and then 3 of the first example row,
  whose price is changed in between.
\<close>

theorem cart_add_twice_witness:
  "filter (\<lambda>c. ci_user c = u_id example_alice \<and> ci_menu_item c = mi_id example_lasagna)
      example_cart = []
   \<and> mi_id example_lasagna_repriced = mi_id example_lasagna
   \<and> price example_lasagna_repriced \<noteq> price example_lasagna
   \<and> (\<exists>objects1 obj1 objects2 obj2.
      CartItemSerializer_create example_cart example_alice
        \<lparr>cv_menu_item = example_lasagna, cv_quantity = Some 2\<rparr> = Inr (objects1, obj1)
      \<and> CartItemSerializer_create objects1 example_alice
        \<lparr>cv_menu_item = example_lasagna_repriced, cv_quantity = Some 3\<rparr> = Inr (objects2, obj2)
      \<and> filter (\<lambda>c. ci_user c = u_id example_alice \<and> ci_menu_item c = mi_id example_lasagna)
           objects2 = [obj2]
      \<and> ci_quantity obj2 = 2 + 3
      \<and> ci_unit_price obj2 = price example_lasagna)"
proof -
  have absent: "filter (\<lambda>c. ci_user c = u_id example_alice \<and> ci_menu_item c = mi_id example_lasagna)
      example_cart = []"
    by (simp add: example_cart_def example_alice_def example_lasagna_def)
  have same: "mi_id example_lasagna_repriced = mi_id example_lasagna"
    by (simp add: example_lasagna_repriced_def)
  have changed: "price example_lasagna_repriced \<noteq> price example_lasagna"
    by (simp add: example_lasagna_repriced_def example_lasagna_def)
  from cart_add_twice [OF absent same, of 2 3] absent same changed show ?thesis
    by blast
qed

subsection \<open>One rating for a user and a menu item\<close>

lemma IntegerField_outcome:
  "IntegerField_run_validation kwargs v = Val v \<or>
   (\<exists>msgs. IntegerField_run_validation kwargs v = Fail msgs)"
  by (simp add: IntegerField_run_validation_def Let_def)

lemma to_internal_value_Inr:
  assumes "RatingSerializer_to_internal_value F users items ru data = Inr v"
  shows "related_get (\<lambda>m. mi_id m = d_menu_item data) items = Val (v_menu_item v)
    \<and> (case d_user data of None \<Rightarrow> Val ru | Some pk \<Rightarrow> related_get (\<lambda>u. u_id u = pk) users)
        = Val (v_user v)"
proof -
  let ?item = "related_get (\<lambda>m. mi_id m = d_menu_item data) items"
  let ?usr = "case d_user data of None \<Rightarrow> Val ru | Some pk \<Rightarrow> related_get (\<lambda>u. u_id u = pk) users"
  let ?sc = "IntegerField_run_validation (RatingSerializer_score_field F) (d_score data)"
  from assms show ?thesis
    unfolding RatingSerializer_to_internal_value_def Let_def
    by (cases ?item; cases ?usr; cases ?sc) auto
qed

lemma to_internal_value_same_pair:
  assumes "related_get (\<lambda>m. mi_id m = d_menu_item data) items = Val m"
    and "(case d_user data of None \<Rightarrow> Val ru | Some pk \<Rightarrow> related_get (\<lambda>u. u_id u = pk) users)
        = Val u"
  shows "RatingSerializer_to_internal_value F users items ru data =
    (case IntegerField_run_validation (RatingSerializer_score_field F) (d_score data) of
       Fail msgs \<Rightarrow> Inl (ValidationErrors [(''score'', msgs)])
     | _ \<Rightarrow> Inr \<lparr>v_menu_item = m, v_score = d_score data, v_comment = d_comment data,
                 v_user = u\<rparr>)"
  using IntegerField_outcome [of "RatingSerializer_score_field F" "d_score data"]
  unfolding RatingSerializer_to_internal_value_def Let_def assms
  by auto

lemma validator_cases:
  "UniqueTogetherValidator ratings None usr item =
     (if filter (\<lambda>r. r_user r = usr \<and> r_menu_item r = item) ratings = [] then Inr ()
      else Inl (ValidationError [''You have already rated this menu item.'']))"
  by (simp add: UniqueTogetherValidator_def Let_def)

lemma save_Inr:
  assumes "RatingSerializer_save F users items ratings ru data = Inr (ratings', obj)"
  shows "\<exists>v. RatingSerializer_to_internal_value F users items ru data = Inr v
    \<and> filter (\<lambda>r. r_user r = u_id (v_user v) \<and> r_menu_item r = mi_id (v_menu_item v)) ratings = []
    \<and> ratings' = ratings @ [obj]
    \<and> r_user obj = u_id (v_user v) \<and> r_menu_item obj = mi_id (v_menu_item v)"
  using assms
  unfolding RatingSerializer_save_def RatingSerializer_run_validation_def validator_cases Let_def
  by (auto split: sum.splits if_splits)

text \<open>
  C8. A rating that is saved leaves at most one rating for each pair of a user and a menu
  item, if that held before. After a rating of a pair is saved, a second submission for
  the same menu item by the same user is rejected: with the message of the uniqueness
  validator when its score is valid, with the errors of the score otherwise. A pair that
  has no rating is not rejected by the uniqueness validator.
\<close>

theorem rating_unique_per_pair:
  "(one_rating_per_pair ratings
      \<and> RatingSerializer_save F users items ratings ru data = Inr (ratings', obj)
      \<longrightarrow> one_rating_per_pair ratings')
   \<and> (RatingSerializer_save F users items ratings ru data = Inr (ratings', obj)
      \<and> d_menu_item data' = d_menu_item data \<and> d_user data' = d_user data
      \<longrightarrow> RatingSerializer_save F users items ratings' ru data' =
            Inl (ValidationErrors
              (case IntegerField_run_validation (RatingSerializer_score_field F) (d_score data') of
                 Fail msgs \<Rightarrow> [(''score'', msgs)]
               | _ \<Rightarrow> [(''non_field_errors'', [''You have already rated this menu item.''])])))
   \<and> (filter (\<lambda>r. r_user r = usr \<and> r_menu_item r = item) ratings = []
      \<longrightarrow> UniqueTogetherValidator ratings None usr item = Inr ())"
proof (intro conjI impI)
  assume a: "one_rating_per_pair ratings
      \<and> RatingSerializer_save F users items ratings ru data = Inr (ratings', obj)"
  then have s: "RatingSerializer_save F users items ratings ru data = Inr (ratings', obj)"
    by simp
  from save_Inr [OF s] obtain v where
    "RatingSerializer_to_internal_value F users items ru data = Inr v
    \<and> filter (\<lambda>r. r_user r = u_id (v_user v) \<and> r_menu_item r = mi_id (v_menu_item v)) ratings = []
    \<and> ratings' = ratings @ [obj]
    \<and> r_user obj = u_id (v_user v) \<and> r_menu_item obj = mi_id (v_menu_item v)" ..
  then have v: "filter (\<lambda>r. r_user r = u_id (v_user v) \<and> r_menu_item r = mi_id (v_menu_item v)) ratings = []"
    "ratings' = ratings @ [obj]" "r_user obj = u_id (v_user v)" "r_menu_item obj = mi_id (v_menu_item v)"
    by simp_all
  from v(1) have "(r_user obj, r_menu_item obj) \<notin> set (map (\<lambda>r. (r_user r, r_menu_item r)) ratings)"
    unfolding v(3,4) by (auto simp: filter_empty_conv)
  with a v(2) show "one_rating_per_pair ratings'"
    by (simp add: one_rating_per_pair_def)
next
  assume a: "RatingSerializer_save F users items ratings ru data = Inr (ratings', obj)
      \<and> d_menu_item data' = d_menu_item data \<and> d_user data' = d_user data"
  then have s: "RatingSerializer_save F users items ratings ru data = Inr (ratings', obj)"
    by simp
  from save_Inr [OF s] obtain v where
    "RatingSerializer_to_internal_value F users items ru data = Inr v
    \<and> filter (\<lambda>r. r_user r = u_id (v_user v) \<and> r_menu_item r = mi_id (v_menu_item v)) ratings = []
    \<and> ratings' = ratings @ [obj]
    \<and> r_user obj = u_id (v_user v) \<and> r_menu_item obj = mi_id (v_menu_item v)" ..
  then have v: "RatingSerializer_to_internal_value F users items ru data = Inr v"
    "ratings' = ratings @ [obj]" "r_user obj = u_id (v_user v)" "r_menu_item obj = mi_id (v_menu_item v)"
    by simp_all
  note g = to_internal_value_Inr [OF v(1)]
  have g': "related_get (\<lambda>m. mi_id m = d_menu_item data') items = Val (v_menu_item v)"
    "(case d_user data' of None \<Rightarrow> Val ru | Some pk \<Rightarrow> related_get (\<lambda>u. u_id u = pk) users)
        = Val (v_user v)"
    using g a by simp_all
  have found: "filter (\<lambda>r. r_user r = u_id (v_user v) \<and> r_menu_item r = mi_id (v_menu_item v)) ratings' \<noteq> []"
    unfolding v(2) using v(3,4) by simp
  show "RatingSerializer_save F users items ratings' ru data' =
            Inl (ValidationErrors
              (case IntegerField_run_validation (RatingSerializer_score_field F) (d_score data') of
                 Fail msgs \<Rightarrow> [(''score'', msgs)]
               | _ \<Rightarrow> [(''non_field_errors'', [''You have already rated this menu item.''])]))"
    using found IntegerField_outcome [of "RatingSerializer_score_field F" "d_score data'"]
    unfolding RatingSerializer_save_def RatingSerializer_run_validation_def
      to_internal_value_same_pair [OF g'] validator_cases
    by auto
next
  assume "filter (\<lambda>r. r_user r = usr \<and> r_menu_item r = item) ratings = []"
  then show "UniqueTogetherValidator ratings None usr item = Inr ()"
    by (simp add: validator_cases)
qed


text \<open>
  C8, witness: the first rating of the first example row by the first example user is
  saved, the second is rejected with the message.
\<close>

theorem rating_unique_per_pair_witness:
  "one_rating_per_pair []
   \<and> RatingSerializer_save example_unbounded [example_alice, example_bob]
        [example_lasagna, example_bruschetta] [] example_alice example_first_rating
       = Inr ([example_first_row], example_first_row)
   \<and> one_rating_per_pair [example_first_row]
   \<and> RatingSerializer_save example_unbounded [example_alice, example_bob]
        [example_lasagna, example_bruschetta] [example_first_row] example_alice
        example_second_rating
       = Inl (ValidationErrors [(''non_field_errors'', [''You have already rated this menu item.''])])
   \<and> UniqueTogetherValidator [] None 1 1 = Inr ()"
proof -
  have inv: "one_rating_per_pair []"
    by (simp add: one_rating_per_pair_def)
  have s: "RatingSerializer_save example_unbounded [example_alice, example_bob]
        [example_lasagna, example_bruschetta] [] example_alice example_first_rating
       = Inr ([example_first_row], example_first_row)"
    by code_simp
  have e: "d_menu_item example_second_rating = d_menu_item example_first_rating"
    "d_user example_second_rating = d_user example_first_rating"
    by (simp_all add: example_second_rating_def example_first_rating_def)
  have sc: "IntegerField_run_validation (RatingSerializer_score_field example_unbounded)
      (d_score example_second_rating) = Val 5"
    by code_simp
  have 1: "one_rating_per_pair [example_first_row]"
    using rating_unique_per_pair [THEN conjunct1, rule_format, OF conjI, OF inv s] .
  have 2: "RatingSerializer_save example_unbounded [example_alice, example_bob]
        [example_lasagna, example_bruschetta] [example_first_row] example_alice
        example_second_rating
       = Inl (ValidationErrors [(''non_field_errors'', [''You have already rated this menu item.''])])"
    using rating_unique_per_pair [THEN conjunct2, THEN conjunct1, rule_format,
        OF conjI [OF s conjI [OF e]]]
    unfolding sc by simp
  have "filter (\<lambda>r. r_user r = (1 :: nat) \<and> r_menu_item r = (1 :: nat)) [] = []"
    by simp
  then have 3: "UniqueTogetherValidator [] None 1 1 = Inr ()"
    using rating_unique_per_pair [THEN conjunct2, THEN conjunct2, rule_format] by blast
  from inv s 1 2 3 show ?thesis
    by (intro conjI)
qed

subsection \<open>Updating an order by role\<close>

lemma handler_to_internal_value_ignores:
  "DeliveryCrewOrderUpdateSerializer_to_internal_value partial M (data(''delivery_crew'' := x)) =
   DeliveryCrewOrderUpdateSerializer_to_internal_value partial M data"
  by (simp add: DeliveryCrewOrderUpdateSerializer_to_internal_value_def)

lemma handler_validated_no_crew:
  "DeliveryCrewOrderUpdateSerializer_to_internal_value partial M data = Inr vd \<Longrightarrow>
   ov_delivery_crew vd = None"
  unfolding DeliveryCrewOrderUpdateSerializer_to_internal_value_def Let_def
  by (auto split: option.splits if_splits)

lemma update_status_only:
  "ov_delivery_crew vd = None \<Longrightarrow>
   update instance vd = instance\<lparr>o_status := o_status (update instance vd)\<rparr>"
  by (cases "ov_status vd") (simp_all add: update_def)

text \<open>
  C5, as amended. \<^verbatim>\<open>DeliveryCrewOrderUpdateSerializer\<close> has the one field
  \<^verbatim>\<open>status\<close>. A key \<^verbatim>\<open>delivery_crew\<close> in a request is not rejected, it is ignored:
  the update returns what it returns without the key; and an update that succeeds changes
  no attribute of the order but the status.
\<close>

theorem handler_ignores_delivery_crew:
  "DeliveryCrewOrderUpdateSerializer_save partial M instance (data(''delivery_crew'' := x)) =
     DeliveryCrewOrderUpdateSerializer_save partial M instance data
   \<and> (DeliveryCrewOrderUpdateSerializer_save partial M instance data = Inr instance'
      \<longrightarrow> instance' = instance\<lparr>o_status := o_status instance'\<rparr>)"
proof
  show "DeliveryCrewOrderUpdateSerializer_save partial M instance (data(''delivery_crew'' := x)) =
     DeliveryCrewOrderUpdateSerializer_save partial M instance data"
    unfolding DeliveryCrewOrderUpdateSerializer_save_def handler_to_internal_value_ignores
    by (rule refl)
  show "DeliveryCrewOrderUpdateSerializer_save partial M instance data = Inr instance'
      \<longrightarrow> instance' = instance\<lparr>o_status := o_status instance'\<rparr>"
  proof
    assume "DeliveryCrewOrderUpdateSerializer_save partial M instance data = Inr instance'"
    then obtain vd where vd: "DeliveryCrewOrderUpdateSerializer_to_internal_value partial M data = Inr vd"
      and i: "instance' = update instance vd"
      unfolding DeliveryCrewOrderUpdateSerializer_save_def
      by (auto split: sum.splits)
    from handler_validated_no_crew [OF vd] have "ov_delivery_crew vd = None" .
    then show "instance' = instance\<lparr>o_status := o_status instance'\<rparr>"
      unfolding i by (rule update_status_only)
  qed
qed

lemma example_status_delivered:
  "status_validate example_order_model (JStr ''delivered'') = Val ''delivered''"
  by (simp add: example_order_model_def)

lemma example_handler_update:
  "DeliveryCrewOrderUpdateSerializer_save False example_order_model example_order
     [''status'' \<mapsto> JStr ''delivered''] = Inr (example_order\<lparr>o_status := ''delivered''\<rparr>)"
  by (simp add: DeliveryCrewOrderUpdateSerializer_save_def
      DeliveryCrewOrderUpdateSerializer_to_internal_value_def status_run_validation_def
      example_status_delivered update_def)

text \<open>
  C5, counterexample: a handler's request with a status and a \<^verbatim>\<open>delivery_crew\<close> is
  accepted; the status is set, the delivery crew of the order stays.
\<close>

theorem handler_delivery_crew_counterexample:
  "DeliveryCrewOrderUpdateSerializer_save False example_order_model example_order
     [''status'' \<mapsto> JStr ''delivered'', ''delivery_crew'' \<mapsto> JStr ''alice'']
   = Inr (example_order\<lparr>o_status := ''delivered''\<rparr>)"
  by (simp add: DeliveryCrewOrderUpdateSerializer_save_def
      DeliveryCrewOrderUpdateSerializer_to_internal_value_def status_run_validation_def
      example_status_delivered update_def)

text \<open>
  C5, witness: the request of the counterexample gives what the request without the key
  gives, and the order keeps its delivery crew.
\<close>

theorem handler_ignores_delivery_crew_witness:
  "DeliveryCrewOrderUpdateSerializer_save False example_order_model example_order
     ([''status'' \<mapsto> JStr ''delivered''](''delivery_crew'' := Some (JStr ''alice'')))
   = Inr (example_order\<lparr>o_status := ''delivered''\<rparr>)
   \<and> example_order\<lparr>o_status := ''delivered''\<rparr>
       = example_order\<lparr>o_status := o_status (example_order\<lparr>o_status := ''delivered''\<rparr>)\<rparr>
   \<and> o_delivery_crew (example_order\<lparr>o_status := ''delivered''\<rparr>) = Some example_bob"
proof -
  have a: "DeliveryCrewOrderUpdateSerializer_save False example_order_model example_order
     ([''status'' \<mapsto> JStr ''delivered''](''delivery_crew'' := Some (JStr ''alice'')))
   = Inr (example_order\<lparr>o_status := ''delivered''\<rparr>)"
    using handler_ignores_delivery_crew [THEN conjunct1, of False example_order_model
        example_order "[''status'' \<mapsto> JStr ''delivered'']" "Some (JStr ''alice'')"]
    unfolding example_handler_update .
  have b: "example_order\<lparr>o_status := ''delivered''\<rparr>
       = example_order\<lparr>o_status := o_status (example_order\<lparr>o_status := ''delivered''\<rparr>)\<rparr>"
    using handler_ignores_delivery_crew [THEN conjunct2, rule_format, OF example_handler_update] .
  have c: "o_delivery_crew (example_order\<lparr>o_status := ''delivered''\<rparr>) = Some example_bob"
    by (simp add: example_order_def)
  from a b c show ?thesis
    by (intro conjI)
qed

text \<open>
  C6. A manager's request with the one key \<^verbatim>\<open>status\<close>, of a value that is valid for
  the status, succeeds: the status is set and every other attribute of the order, the
  delivery crew among them, stays. \<^verbatim>\<open>delivery_crew\<close> is never required
  (\<^verbatim>\<open>required=False\<close>); the status is optional on a partial update, or when the model
  does not require it: then a request with no key leaves the order as it is, and a request
  with \<^verbatim>\<open>delivery_crew\<close> null sets the delivery crew to none.
\<close>

theorem manager_status_only:
  "(status_validate M v = Val st
      \<longrightarrow> ManagerOrderUpdateSerializer_save partial M users instance [''status'' \<mapsto> v]
            = Inr (instance\<lparr>o_status := st\<rparr>))
   \<and> (partial \<or> \<not> status_required M
      \<longrightarrow> ManagerOrderUpdateSerializer_save partial M users instance Map.empty = Inr instance
          \<and> ManagerOrderUpdateSerializer_save partial M users instance
               [''delivery_crew'' \<mapsto> JNull] = Inr (instance\<lparr>o_delivery_crew := None\<rparr>))"
  by (auto simp: ManagerOrderUpdateSerializer_save_def
      ManagerOrderUpdateSerializer_to_internal_value_def delivery_crew_run_validation_def
      status_run_validation_def empty_value_def update_def)

text \<open>
  C6, witness: the example order, with a model that requires the status. The request
  with the status alone is not partial; the two requests without a status are.
\<close>

theorem manager_status_only_witness:
  "status_validate example_order_model (JStr ''delivered'') = Val ''delivered''
   \<and> ManagerOrderUpdateSerializer_save False example_order_model [example_alice, example_bob]
        example_order [''status'' \<mapsto> JStr ''delivered'']
       = Inr (example_order\<lparr>o_status := ''delivered''\<rparr>)
   \<and> o_delivery_crew (example_order\<lparr>o_status := ''delivered''\<rparr>) = o_delivery_crew example_order
   \<and> ManagerOrderUpdateSerializer_save True example_order_model [example_alice, example_bob]
        example_order Map.empty = Inr example_order
   \<and> ManagerOrderUpdateSerializer_save True example_order_model [example_alice, example_bob]
        example_order [''delivery_crew'' \<mapsto> JNull]
       = Inr (example_order\<lparr>o_delivery_crew := None\<rparr>)"
proof -
  note t = manager_status_only [of example_order_model "JStr ''delivered''" "''delivered''" _
      "[example_alice, example_bob]" example_order]
  have a: "ManagerOrderUpdateSerializer_save False example_order_model [example_alice, example_bob]
        example_order [''status'' \<mapsto> JStr ''delivered'']
       = Inr (example_order\<lparr>o_status := ''delivered''\<rparr>)"
    using t [of False, THEN conjunct1, rule_format, OF example_status_delivered] .
  have p: "True \<or> \<not> status_required example_order_model"
    by simp
  note b = t [of True, THEN conjunct2, rule_format, OF p]
  have c: "o_delivery_crew (example_order\<lparr>o_status := ''delivered''\<rparr>) = o_delivery_crew example_order"
    by simp
  from example_status_delivered a c b show ?thesis
    by (intro conjI) simp_all
qed

subsection \<open>The totals of an order view\<close>

lemma item_view_total:
  assumes "to_representation (OrderItemReadSerializer_fields M) item = Inr kv"
  shows "map_of kv ''total_price'' =
    Some (RDec (line_total (oi_unit_price item) (oi_quantity item)))"
  using assms
  by (auto simp: to_representation_Nil to_representation_Cons OrderItemReadSerializer_fields_def
      get_total_price_def total_price_def split: sum.splits)

lemma represent_many_totals:
  "represent_many (OrderItemReadSerializer_fields M) items = Inr views \<Longrightarrow>
   map view_total_price views =
     map (\<lambda>i. Some (RDec (line_total (oi_unit_price i) (oi_quantity i)))) items"
proof (induction items arbitrary: views)
  case Nil
  then show ?case by simp
next
  case (Cons i items)
  from Cons.prems obtain kv rest
    where kv: "to_representation (OrderItemReadSerializer_fields M) i = Inr kv"
      and rest: "represent_many (OrderItemReadSerializer_fields M) items = Inr rest"
      and views: "views = RObj kv # rest"
    by (auto split: sum.splits)
  show ?case
    unfolding views using item_view_total [OF kv] Cons.IH [OF rest] by simp
qed

lemma order_view_items:
  assumes "to_representation (OrderReadSerializer_fields M) obj = Inr r"
  shows "\<exists>views. represent_many (OrderItemReadSerializer_fields M) (o_items obj) = Inr views
    \<and> map_of r ''items'' = Some (RList views)"
  using assms
  by (auto simp: to_representation_Nil to_representation_Cons OrderReadSerializer_fields_def
      split: sum.splits)

lemma line_total_value:
  "dec_value (line_total unit_price quantity) = dec_value unit_price * of_int quantity"
  by (simp add: line_total_def dec_value_def)

text \<open>
  C7. In the view of an order item, \<^verbatim>\<open>total_price\<close> is the unit price of the item
  times its quantity; in the view of an order, the totals of the item views are the
  products of the items, whatever total the order stores. The product, as a number, is
  the unit price times the quantity.
\<close>

theorem order_view_item_totals:
  "(to_representation (OrderItemReadSerializer_fields M) item = Inr kv
      \<longrightarrow> map_of kv ''total_price''
          = Some (RDec (line_total (oi_unit_price item) (oi_quantity item))))
   \<and> (to_representation (OrderReadSerializer_fields M) obj = Inr r
      \<longrightarrow> (\<exists>views. map_of r ''items'' = Some (RList views)
            \<and> map view_total_price views
              = map (\<lambda>i. Some (RDec (line_total (oi_unit_price i) (oi_quantity i)))) (o_items obj)))
   \<and> dec_value (line_total unit_price quantity) = dec_value unit_price * of_int quantity"
proof (intro conjI impI)
  assume "to_representation (OrderItemReadSerializer_fields M) item = Inr kv"
  then show "map_of kv ''total_price''
      = Some (RDec (line_total (oi_unit_price item) (oi_quantity item)))"
    by (rule item_view_total)
next
  assume "to_representation (OrderReadSerializer_fields M) obj = Inr r"
  from order_view_items [OF this] obtain views
    where "represent_many (OrderItemReadSerializer_fields M) (o_items obj) = Inr views"
      and "map_of r ''items'' = Some (RList views)"
    by blast
  with represent_many_totals
  show "\<exists>views. map_of r ''items'' = Some (RList views)
      \<and> map view_total_price views
        = map (\<lambda>i. Some (RDec (line_total (oi_unit_price i) (oi_quantity i)))) (o_items obj)"
    by blast
next
  show "dec_value (line_total unit_price quantity) = dec_value unit_price * of_int quantity"
    by (rule line_total_value)
qed

lemma example_decimal_fields:
  "total_to_repr example_order_model \<lparr>coeff = 100, exponent = - 2\<rparr>
     = Inr (RDecStr \<lparr>coeff = 100, exponent = - 2\<rparr>)"
  "unit_price_to_repr example_order_model \<lparr>coeff = 950, exponent = - 2\<rparr>
     = Inr (RDecStr \<lparr>coeff = 950, exponent = - 2\<rparr>)"
  "status_to_repr example_order_model = RStr"
  by (simp_all add: example_order_model_def DecimalField_to_representation_def quantize_prec_def)

lemma example_order_item_view:
  "to_representation (OrderItemReadSerializer_fields example_order_model) example_order_item =
     Inr [(''id'', RInt 3), (''menu_item'', RInt 1), (''dish'', RStr ''Lasagna''),
          (''quantity'', RInt 2),
          (''unit_price'', RDecStr \<lparr>coeff = 950, exponent = - 2\<rparr>),
          (''total_price'', RDec \<lparr>coeff = 1900, exponent = - 2\<rparr>)]"
  by (simp add: to_representation_Nil to_representation_Cons OrderItemReadSerializer_fields_def
      example_order_item_def example_lasagna_attrs example_decimal_fields
      get_total_price_def total_price_def line_total_def)

lemma example_order_representation:
  "to_representation (OrderReadSerializer_fields example_order_model) example_order =
     Inr example_order_view"
  by (simp add: to_representation_Nil to_representation_Cons OrderReadSerializer_fields_def
      example_order_def example_order_item_view example_decimal_fields get_delivery_crew_def
      example_alice_def example_bob_def example_order_view_def)

text \<open>
  C7, witness: the example order stores the total 1.00; its one item, 2 at 9.50, is shown
  with the total 19.00.
\<close>

theorem order_view_item_totals_witness:
  "to_representation (OrderReadSerializer_fields example_order_model) example_order =
     Inr example_order_view
   \<and> (\<exists>views. map_of example_order_view ''items'' = Some (RList views)
        \<and> map view_total_price views = [Some (RDec \<lparr>coeff = 1900, exponent = - 2\<rparr>)])
   \<and> o_total example_order = \<lparr>coeff = 100, exponent = - 2\<rparr>"
proof -
  from order_view_item_totals [THEN conjunct2, THEN conjunct1, rule_format,
      OF example_order_representation]
  have "\<exists>views. map_of example_order_view ''items'' = Some (RList views)
        \<and> map view_total_price views = [Some (RDec \<lparr>coeff = 1900, exponent = - 2\<rparr>)]"
    by (simp add: example_order_def example_order_item_def line_total_def)
  moreover have "o_total example_order = \<lparr>coeff = 100, exponent = - 2\<rparr>"
    by (simp add: example_order_def)
  ultimately show ?thesis
    using example_order_representation by simp
qed

end
